theory Spec2Isabelle
  imports Complex_Main "HOL-Library.Log_Nat"
begin

section \<open>The payment route: \<^verbatim>\<open>src/app/api/payments/square/route.ts\<close>\<close>

text \<open>
  The route has two handlers, \<^verbatim>\<open>POST\<close> (create a payment) and \<^verbatim>\<open>PUT\<close> (update a
  payment's status). Both read a JSON body, talk to external collaborators (the Square
  gateway through \<^verbatim>\<open>createPayment\<close>, the Supabase store, the console) and answer with
  \<^verbatim>\<open>NextResponse.json\<close>. The handlers are modelled as functions of the collaborators'
  answers that return the response together with the list of effects they performed, in
  order.
\<close>

subsection \<open>JavaScript values\<close>

text \<open>
  A JavaScript number is a finite value, an infinity or NaN. Finite values are modelled as
  rationals: every IEEE double is one, so a statement about all rationals covers all
  doubles. \<^verbatim>\<open>JSON.parse\<close> yields \<^verbatim>\<open>Infinity\<close> for a literal such as \<^verbatim>\<open>1e999\<close>. A
  string is the list of the bytes of its UTF-8 form.
\<close>

datatype jsnum = Fin rat | PosInf | NegInf | NaN

text \<open>
  The result of an arithmetic operation is the double nearest to the exact result, a tie
  going to the double with the even significand (IEEE 754 binary64, round to nearest).
  \<open>floor_log2 q\<close> is the integer \<open>k\<close> with \<open>2 ^ k \<le> q < 2 ^ (k + 1)\<close>, for \<open>q > 0\<close>.
  The doubles around \<open>q\<close> are the multiples of \<open>2 ^ e\<close>, where \<open>e\<close> is 52 below
  \<open>floor_log2 \<bar>q\<bar>\<close> and at least \<open>- 1074\<close> (the subnormal numbers); what reaches
  \<open>2 ^ 1024\<close> is an infinity.
\<close>

definition floor_log2 :: "rat \<Rightarrow> int" where
  "floor_log2 q = (if 1 \<le> q then bitlen \<lfloor>q\<rfloor> - 1 else - bitlen (\<lceil>1 / q\<rceil> - 1))"

definition round_ties_even :: "rat \<Rightarrow> int" where
  "round_ties_even x =
     (if x - of_int \<lfloor>x\<rfloor> < 1 / 2 then \<lfloor>x\<rfloor>
      else if 1 / 2 < x - of_int \<lfloor>x\<rfloor> then \<lfloor>x\<rfloor> + 1
      else if even \<lfloor>x\<rfloor> then \<lfloor>x\<rfloor> else \<lfloor>x\<rfloor> + 1)"

definition binary64 :: "rat \<Rightarrow> jsnum" where
  "binary64 q =
     (if q = 0 then Fin 0
      else
        let e = max (floor_log2 \<bar>q\<bar> - 52) (- 1074);
            v = of_int (round_ties_even (\<bar>q\<bar> / 2 powi e)) * 2 powi e
        in if 2 ^ 1024 \<le> v then (if 0 < q then PosInf else NegInf)
           else Fin (sgn q * v))"

datatype json =
    JUndefined
  | JNull
  | JBool bool
  | JNum jsnum
  | JStr string
  | JArr "json list"
  | JObj "(string \<times> json) list"

text \<open>Truthiness, as \<^verbatim>\<open>!x\<close> and \<^verbatim>\<open>x ? a : b\<close> and \<^verbatim>\<open>x && y\<close> test it.\<close>

fun truthy :: "json \<Rightarrow> bool" where
  "truthy JUndefined = False"
| "truthy JNull = False"
| "truthy (JBool b) = b"
| "truthy (JNum n) = (n \<noteq> Fin 0 \<and> n \<noteq> NaN)"
| "truthy (JStr s) = (s \<noteq> [])"
| "truthy (JArr xs) = True"
| "truthy (JObj fs) = True"

text \<open>
  Reading a property \<open>k\<close> of a value that is neither \<^verbatim>\<open>null\<close> nor \<^verbatim>\<open>undefined\<close>:
  the value under the key in an object, \<^verbatim>\<open>undefined\<close> for a key that is not there.
  An object is the list of its keys and values, each key once. The keys the handlers read
  are no properties of strings, numbers, booleans or arrays, and none that an object
  inherits.
\<close>

fun property :: "json \<Rightarrow> string \<Rightarrow> json" where
  "property (JObj fs) k = (case map_of fs k of None \<Rightarrow> JUndefined | Some v \<Rightarrow> v)"
| "property v k = JUndefined"

text \<open>\<^verbatim>\<open>Number.isInteger(x)\<close>: \<open>x\<close> is a number, finite and integral.\<close>

fun Number_isInteger :: "json \<Rightarrow> bool" where
  "Number_isInteger (JNum (Fin r)) = (of_int \<lfloor>r\<rfloor> = r)"
| "Number_isInteger v = False"

text \<open>
  The numeric value of an operand of \<^verbatim>\<open><=\<close> and \<^verbatim>\<open>/\<close>. The coercion of a value that
  is not a number is not modelled (\<open>NaN\<close> stands for it): \<^verbatim>\<open>POST\<close> evaluates both
  operators only on a value that \<^verbatim>\<open>Number.isInteger\<close> has accepted.
\<close>

fun the_number :: "json \<Rightarrow> jsnum" where
  "the_number (JNum n) = n"
| "the_number v = NaN"

text \<open>\<^verbatim>\<open>n <= 0\<close> on numbers.\<close>

fun le_zero :: "jsnum \<Rightarrow> bool" where
  "le_zero (Fin r) = (r \<le> 0)"
| "le_zero NegInf = True"
| "le_zero PosInf = False"
| "le_zero NaN = False"

text \<open>\<^verbatim>\<open>n / 100\<close> on numbers: the double nearest to the quotient.\<close>

fun div_100 :: "jsnum \<Rightarrow> jsnum" where
  "div_100 (Fin r) = binary64 (r / 100)"
| "div_100 PosInf = PosInf"
| "div_100 NegInf = NegInf"
| "div_100 NaN = NaN"

text \<open>
  The method call \<^verbatim>\<open>v.toLowerCase()\<close> on a value of the body: only a string has the
  method, and there the result is what \<^verbatim>\<open>String.prototype.toLowerCase\<close>, the parameter
  \<open>lower\<close>, gives; on any other value that passed the truthiness test the call throws
  a TypeError (the result \<open>None\<close>).
\<close>

fun call_toLowerCase :: "(string \<Rightarrow> string) \<Rightarrow> json \<Rightarrow> string option" where
  "call_toLowerCase lower (JStr s) = Some (lower s)"
| "call_toLowerCase lower v = None"

text \<open>
  The text of a number. An integer of magnitude below \<open>2 ^ 53\<close> is written with its
  decimal digits. The shortest decimal form of any other finite number depends on the
  doubles next to it and is the parameter \<open>num\<close>.
\<close>

function digits :: "nat \<Rightarrow> string" where
  "digits n =
     (if n < 10 then [''0123456789'' ! n]
      else digits (n div 10) @ [''0123456789'' ! (n mod 10)])"
  by pat_completeness auto
termination
  by (relation "measure id") auto

declare digits.simps [simp del]

definition decimal :: "int \<Rightarrow> string" where
  "decimal i = (if i < 0 then CHR ''-'' # digits (nat (- i)) else digits (nat i))"

fun Number_text :: "(jsnum \<Rightarrow> string) \<Rightarrow> jsnum \<Rightarrow> string" where
  "Number_text num (Fin r) =
     (if of_int \<lfloor>r\<rfloor> = r \<and> \<bar>r\<bar> < 2 ^ 53 then decimal \<lfloor>r\<rfloor> else num (Fin r))"
| "Number_text num PosInf = ''Infinity''"
| "Number_text num NegInf = ''-Infinity''"
| "Number_text num NaN = ''NaN''"

text \<open>
  The string a template literal \<^verbatim>\<open>`...${v}`\<close> inserts for \<open>v\<close>, or \<open>None\<close> when the
  conversion throws a TypeError. An array is the texts of its elements joined by commas,
  \<^verbatim>\<open>null\<close> giving the empty text. An object of a parsed body inherits \<^verbatim>\<open>toString\<close>
  and gives \<^verbatim>\<open>[object Object]\<close>, unless it has a key \<^verbatim>\<open>toString\<close> of its own: the
  value under it is no function, \<^verbatim>\<open>valueOf\<close> gives no primitive either, and the
  conversion throws.
\<close>

fun join_comma :: "string list \<Rightarrow> string" where
  "join_comma [] = []"
| "join_comma [s] = s"
| "join_comma (s # t # ss) = s @ '','' @ join_comma (t # ss)"

fun toString :: "(jsnum \<Rightarrow> string) \<Rightarrow> json \<Rightarrow> string option" where
  "toString num JUndefined = Some ''undefined''"
| "toString num JNull = Some ''null''"
| "toString num (JBool b) = Some (if b then ''true'' else ''false'')"
| "toString num (JNum n) = Some (Number_text num n)"
| "toString num (JStr s) = Some s"
| "toString num (JArr xs) =
     map_option join_comma
       (those (map (\<lambda>x. if x = JUndefined \<or> x = JNull then Some [] else toString num x) xs))"
| "toString num (JObj fs) =
     (if ''toString'' \<in> fst ` set fs then None else Some ''[object Object]'')"

subsection \<open>Request bodies\<close>

text \<open>
  The variables \<^verbatim>\<open>POST\<close> destructures from the body (line 8), and those of \<^verbatim>\<open>PUT\<close>
  (line 115). Destructuring \<^verbatim>\<open>null\<close> throws a TypeError: the result \<open>None\<close>.
\<close>

record payment_request =
  sourceId :: json
  amount :: json
  description :: json
  idempotencyKey :: json
  userId :: json
  tournamentId :: json

record status_request =
  paymentId :: json
  status :: json

definition destructure_payment :: "json \<Rightarrow> payment_request option" where
  "destructure_payment b =
     (if b = JNull \<or> b = JUndefined then None
      else Some \<lparr>payment_request.sourceId = property b ''sourceId'',
                 payment_request.amount = property b ''amount'',
                 payment_request.description = property b ''description'',
                 payment_request.idempotencyKey = property b ''idempotencyKey'',
                 payment_request.userId = property b ''userId'',
                 payment_request.tournamentId = property b ''tournamentId''\<rparr>)"

definition destructure_status :: "json \<Rightarrow> status_request option" where
  "destructure_status b =
     (if b = JNull \<or> b = JUndefined then None
      else Some \<lparr>status_request.paymentId = property b ''paymentId'',
                 status_request.status = property b ''status''\<rparr>)"

subsection \<open>The collaborators' data\<close>

text \<open>The argument of \<^verbatim>\<open>createPayment\<close> (lines 27 to 34).\<close>

record charge =
  sourceId :: json
  amount :: json
  currency :: string
  idempotencyKey :: json
  note' :: json
  referenceId :: "string option"

text \<open>
  Modelled from the spec: the value \<^verbatim>\<open>createPayment\<close> resolves to. Its declaration is in
  \<^verbatim>\<open>lib/square\<close>, which is not among the sources; the spec gives the gateway's result
  as identifier, amount, currency and status, the status being a string.
\<close>

record payment =
  id :: string
  amount :: jsnum
  currency :: string
  status :: string

text \<open>
  What \<^verbatim>\<open>createPayment\<close> can throw, as the \<^verbatim>\<open>catch\<close> block tells it apart: a
  \<^verbatim>\<open>SquarePaymentError\<close> with its message, or anything else.
\<close>

datatype thrown = SquarePaymentError string | OtherError

datatype gateway_result = Resolved payment | Rejected thrown

text \<open>The row given to \<^verbatim>\<open>insert\<close> on \<^verbatim>\<open>payments\<close> (lines 39 to 52).\<close>

record payment_metadata =
  square_payment :: payment
  idempotency_key :: json

record payment_row =
  user_id :: json
  tournament_id :: json
  square_payment_id :: string
  amount :: jsnum
  currency :: string
  status :: string
  payment_type :: string
  description :: json
  metadata :: payment_metadata

text \<open>
  The row the store returns as \<^verbatim>\<open>data\<close> after \<^verbatim>\<open>.select().single()\<close>: the columns
  of the table, with the identifier and the timestamp the store keeps.
\<close>

record payment_record = payment_row +
  id :: json
  updated_at :: json

text \<open>The fields given to \<^verbatim>\<open>update\<close> on \<^verbatim>\<open>tournament_registrations\<close> (lines 73 to 77).\<close>

record registration_patch =
  payment_status :: string
  payment_id :: string
  payment_amount :: jsnum

text \<open>The fields given to \<^verbatim>\<open>update\<close> on \<^verbatim>\<open>payments\<close> (lines 127 to 130).\<close>

record payment_patch =
  status :: string
  updated_at :: string

text \<open>The store's \<^verbatim>\<open>error\<close> value, when it is not \<^verbatim>\<open>null\<close>.\<close>

datatype db_error = PostgrestError string

text \<open>
  The collaborators. The store's operations answer with an error value or with their data;
  \<^verbatim>\<open>Date_toISOString\<close> is \<^verbatim>\<open>new Date().toISOString()\<close>. Two functions of the
  language are parameters too: \<^verbatim>\<open>Number_toString\<close>, the text of a number that is not a
  small integer, and \<^verbatim>\<open>toLowerCase\<close>, which is \<^verbatim>\<open>String.prototype.toLowerCase\<close> with
  its Unicode case mapping.
\<close>

record world =
  createPayment :: "charge \<Rightarrow> gateway_result"
  payments_insert :: "payment_row \<Rightarrow> db_error + payment_record"
  registrations_update :: "registration_patch \<Rightarrow> json \<Rightarrow> json \<Rightarrow> db_error option"
  payments_update :: "payment_patch \<Rightarrow> json \<Rightarrow> db_error + payment_record"
  Date_toISOString :: string
  Number_toString :: "jsnum \<Rightarrow> string"
  toLowerCase :: "string \<Rightarrow> string"

text \<open>
  The effects of a handler, in the order it performs them. \<open>RegistrationsUpdate p t u\<close> is
  the update with fields \<open>p\<close> of the rows whose \<^verbatim>\<open>tournament_id\<close> is \<open>t\<close> and whose
  \<^verbatim>\<open>user_id\<close> is \<open>u\<close>; \<open>PaymentsUpdate p k\<close> is the update with fields \<open>p\<close> of the
  row whose \<^verbatim>\<open>square_payment_id\<close> is \<open>k\<close>; \<open>ConsoleError l\<close> is a
  \<^verbatim>\<open>console.error\<close> with label \<open>l\<close>.
\<close>

datatype effect =
    CreatePayment charge
  | PaymentsInsert payment_row
  | RegistrationsUpdate registration_patch json json
  | PaymentsUpdate payment_patch json
  | ConsoleError string

fun gateway_calls :: "effect list \<Rightarrow> charge list" where
  "gateway_calls [] = []"
| "gateway_calls (CreatePayment c # es) = c # gateway_calls es"
| "gateway_calls (e # es) = gateway_calls es"

fun is_store_call :: "effect \<Rightarrow> bool" where
  "is_store_call (PaymentsInsert r) = True"
| "is_store_call (RegistrationsUpdate p t u) = True"
| "is_store_call (PaymentsUpdate p k) = True"
| "is_store_call e = False"

definition store_calls :: "effect list \<Rightarrow> effect list" where
  "store_calls es = filter is_store_call es"

subsection \<open>Responses\<close>

text \<open>
  The object given to \<^verbatim>\<open>NextResponse.json\<close>; a key the object literal does not have is
  \<open>None\<close>.
\<close>

record response_body =
  success :: bool
  error :: "string option"
  paymentId :: "string option"
  amount :: "jsnum option"
  status :: "string option"
  recordId :: "json option"
  warning :: "string option"
  payment :: "payment_record option"

record response =
  http_status :: nat
  body :: response_body

definition NextResponse_json :: "response_body \<Rightarrow> nat \<Rightarrow> response" where
  "NextResponse_json b s = \<lparr>http_status = s, body = b\<rparr>"

text \<open>The literal \<^verbatim>\<open>{ success: false, error: msg }\<close>.\<close>

definition failure :: "string \<Rightarrow> response_body" where
  "failure msg =
     \<lparr>success = False, error = Some msg, response_body.paymentId = None,
      response_body.amount = None, response_body.status = None,
      recordId = None, warning = None, payment = None\<rparr>"

subsection \<open>The handlers\<close>

text \<open>
  The request is what \<^verbatim>\<open>await request.json()\<close> gives: the parsed body, or \<open>None\<close>
  when the promise rejects because the body is not JSON.
\<close>

type_synonym NextRequest = "json option"

text \<open>
  The two validation tests of \<^verbatim>\<open>POST\<close> (lines 11 and 19): a request passes when neither
  sends the 400 response.
\<close>

definition passes_validation :: "payment_request \<Rightarrow> bool" where
  "passes_validation r =
     (\<not> (\<not> truthy (payment_request.sourceId r) \<or> \<not> truthy (payment_request.amount r) \<or>
          \<not> truthy (payment_request.idempotencyKey r)) \<and>
      \<not> (\<not> Number_isInteger (payment_request.amount r) \<or>
          le_zero (the_number (payment_request.amount r))))"

text \<open>
  The reference of the charge (line 33): none for a falsy \<^verbatim>\<open>tournamentId\<close>, the
  template literal otherwise. The outer \<open>None\<close> is the TypeError of a conversion that
  throws.
\<close>

definition reference :: "world \<Rightarrow> payment_request \<Rightarrow> string option option" where
  "reference w r =
     (if truthy (tournamentId r)
      then map_option (\<lambda>s. Some (''tournament_'' @ s))
             (toString (Number_toString w) (tournamentId r))
      else Some None)"

text \<open>
  The argument of \<^verbatim>\<open>createPayment\<close> (lines 27 to 34) for a reference \<open>ref\<close>, and the
  argument \<^verbatim>\<open>POST\<close> builds, \<open>None\<close> when building it throws.
\<close>

definition charge_of :: "payment_request \<Rightarrow> string option \<Rightarrow> charge" where
  "charge_of r ref =
     \<lparr>charge.sourceId = payment_request.sourceId r,
      charge.amount = payment_request.amount r,
      charge.currency = ''GBP'',
      charge.idempotencyKey = payment_request.idempotencyKey r,
      charge.note' = payment_request.description r,
      charge.referenceId = ref\<rparr>"

definition charge_args :: "world \<Rightarrow> payment_request \<Rightarrow> charge option" where
  "charge_args w r = map_option (charge_of r) (reference w r)"

text \<open>The row given to \<^verbatim>\<open>insert\<close> (lines 39 to 52).\<close>

definition payment_row_of :: "world \<Rightarrow> payment_request \<Rightarrow> payment \<Rightarrow> payment_row" where
  "payment_row_of w r p =
     \<lparr>user_id = userId r,
      tournament_id = tournamentId r,
      square_payment_id = payment.id p,
      payment_row.amount = div_100 (the_number (payment_request.amount r)),
      payment_row.currency = payment.currency p,
      payment_row.status = toLowerCase w (payment.status p),
      payment_type = (if truthy (tournamentId r) then ''entry_fee'' else ''other''),
      payment_row.description = payment_request.description r,
      metadata = \<lparr>square_payment = p,
                  idempotency_key = payment_request.idempotencyKey r\<rparr>\<rparr>"

text \<open>The fields of the registration update (lines 73 to 77).\<close>

definition registration_fields :: "payment_request \<Rightarrow> payment \<Rightarrow> registration_patch" where
  "registration_fields r p =
     \<lparr>payment_status = ''completed'',
      payment_id = payment.id p,
      payment_amount = div_100 (the_number (payment_request.amount r))\<rparr>"

text \<open>The \<^verbatim>\<open>catch\<close> block of \<^verbatim>\<open>POST\<close> (lines 94 to 108).\<close>

fun POST_catch :: "thrown \<Rightarrow> effect list \<Rightarrow> response \<times> effect list" where
  "POST_catch (SquarePaymentError message) es =
     (NextResponse_json (failure message) 400,
      es @ [ConsoleError ''Payment processing error:''])"
| "POST_catch OtherError es =
     (NextResponse_json (failure ''Payment processing failed'') 500,
      es @ [ConsoleError ''Payment processing error:''])"

text \<open>The registration step of \<^verbatim>\<open>POST\<close> (lines 70 to 84): its effects.\<close>

definition registration_sync :: "world \<Rightarrow> payment_request \<Rightarrow> payment \<Rightarrow> effect list" where
  "registration_sync w r p =
     (if truthy (tournamentId r) \<and> truthy (userId r) then
        RegistrationsUpdate (registration_fields r p) (tournamentId r) (userId r) #
        (case registrations_update w (registration_fields r p) (tournamentId r) (userId r) of
           Some registrationError \<Rightarrow> [ConsoleError ''Registration update error:'']
         | None \<Rightarrow> [])
      else [])"

text \<open>The statements of \<^verbatim>\<open>POST\<close> after the destructuring (lines 10 to 92).\<close>

definition POST_body :: "world \<Rightarrow> payment_request \<Rightarrow> response \<times> effect list" where
  "POST_body w r =
     (if \<not> truthy (payment_request.sourceId r) \<or> \<not> truthy (payment_request.amount r) \<or>
         \<not> truthy (payment_request.idempotencyKey r) then
        (NextResponse_json (failure ''Missing required payment information'') 400, [])
      else if \<not> Number_isInteger (payment_request.amount r) \<or>
              le_zero (the_number (payment_request.amount r)) then
        (NextResponse_json (failure ''Invalid payment amount'') 400, [])
      else
        (case charge_args w r of
           None \<Rightarrow> POST_catch OtherError []
         | Some args \<Rightarrow>
             (case createPayment w args of
                Rejected e \<Rightarrow> POST_catch e [CreatePayment args]
              | Resolved p \<Rightarrow>
                  (case payments_insert w (payment_row_of w r p) of
                     Inl dbError \<Rightarrow>
                       (NextResponse_json
                          \<lparr>success = True, error = None,
                           response_body.paymentId = Some (payment.id p),
                           response_body.amount = None, response_body.status = None,
                           recordId = None,
                           warning = Some ''Payment processed but record creation failed'',
                           payment = None\<rparr>
                          200,
                        [CreatePayment args, PaymentsInsert (payment_row_of w r p),
                         ConsoleError ''Database error:''])
                   | Inr paymentRecord \<Rightarrow>
                       (NextResponse_json
                          \<lparr>success = True, error = None,
                           response_body.paymentId = Some (payment.id p),
                           response_body.amount = Some (payment.amount p),
                           response_body.status = Some (payment.status p),
                           recordId = Some (payment_record.id paymentRecord),
                           warning = None, payment = None\<rparr>
                          200,
                        [CreatePayment args, PaymentsInsert (payment_row_of w r p)] @
                        registration_sync w r p)))))"

text \<open>
  \<^verbatim>\<open>POST\<close> (lines 5 to 109): a body that does not parse, a body that cannot be
  destructured, and a reference that cannot be built, throw inside the \<^verbatim>\<open>try\<close>.
\<close>

definition POST :: "world \<Rightarrow> NextRequest \<Rightarrow> response \<times> effect list" where
  "POST w request =
     (case request of
        None \<Rightarrow> POST_catch OtherError []
      | Some b \<Rightarrow>
          (case destructure_payment b of
             None \<Rightarrow> POST_catch OtherError []
           | Some r \<Rightarrow> POST_body w r))"

text \<open>The \<^verbatim>\<open>catch\<close> block of \<^verbatim>\<open>PUT\<close> (lines 148 to 154).\<close>

definition PUT_catch :: "effect list \<Rightarrow> response \<times> effect list" where
  "PUT_catch es =
     (NextResponse_json (failure ''Payment update failed'') 500,
      es @ [ConsoleError ''Payment update error:''])"

text \<open>The fields of the status update (lines 127 to 130).\<close>

definition status_fields :: "world \<Rightarrow> string \<Rightarrow> payment_patch" where
  "status_fields w lowered =
     \<lparr>payment_patch.status = lowered, payment_patch.updated_at = Date_toISOString w\<rparr>"

text \<open>The statements of \<^verbatim>\<open>PUT\<close> after the destructuring (lines 117 to 146).\<close>

definition PUT_body :: "world \<Rightarrow> status_request \<Rightarrow> response \<times> effect list" where
  "PUT_body w r =
     (if \<not> truthy (status_request.paymentId r) \<or> \<not> truthy (status_request.status r) then
        (NextResponse_json (failure ''Missing payment ID or status'') 400, [])
      else
        (case call_toLowerCase (toLowerCase w) (status_request.status r) of
           None \<Rightarrow> PUT_catch []
         | Some lowered \<Rightarrow>
             (case payments_update w (status_fields w lowered) (status_request.paymentId r) of
                Inl error' \<Rightarrow>
                  (NextResponse_json (failure ''Failed to update payment status'') 500,
                   [PaymentsUpdate (status_fields w lowered) (status_request.paymentId r),
                    ConsoleError ''Payment update error:''])
              | Inr data \<Rightarrow>
                  (NextResponse_json
                     \<lparr>success = True, error = None, response_body.paymentId = None,
                      response_body.amount = None, response_body.status = None,
                      recordId = None, warning = None, payment = Some data\<rparr>
                     200,
                   [PaymentsUpdate (status_fields w lowered) (status_request.paymentId r)]))))"

text \<open>\<^verbatim>\<open>PUT\<close> (lines 112 to 155).\<close>

definition PUT :: "world \<Rightarrow> NextRequest \<Rightarrow> response \<times> effect list" where
  "PUT w request =
     (case request of
        None \<Rightarrow> PUT_catch []
      | Some b \<Rightarrow>
          (case destructure_status b of
             None \<Rightarrow> PUT_catch []
           | Some r \<Rightarrow> PUT_body w r))"

subsection \<open>Sample collaborators and requests\<close>

text \<open>
  A gateway result, a stored row, a world whose collaborators give fixed answers, and
  request bodies, for running the handlers on concrete inputs. The sample world lower-cases
  the letters \<open>A\<close> to \<open>Z\<close>, as the language does on a string of ASCII characters.
\<close>

definition ascii_lower :: "string \<Rightarrow> string" where
  "ascii_lower s =
     map (\<lambda>c. case map_of (zip ''ABCDEFGHIJKLMNOPQRSTUVWXYZ''
                                ''abcdefghijklmnopqrstuvwxyz'') c of
                None \<Rightarrow> c
              | Some d \<Rightarrow> d) s"

definition sample_payment :: "string \<Rightarrow> jsnum \<Rightarrow> payment" where
  "sample_payment st n =
     \<lparr>payment.id = ''pay_1'', payment.amount = n, payment.currency = ''GBP'',
      payment.status = st\<rparr>"

definition sample_record :: payment_record where
  "sample_record =
     \<lparr>user_id = JStr ''u1'', tournament_id = JStr ''t1'', square_payment_id = ''pay_1'',
      payment_row.amount = Fin 10, payment_row.currency = ''GBP'',
      payment_row.status = ''completed'', payment_type = ''entry_fee'',
      payment_row.description = JStr ''Entry fee'',
      metadata = \<lparr>square_payment = sample_payment ''COMPLETED'' (Fin 1000),
                  idempotency_key = JStr ''key-1''\<rparr>,
      payment_record.id = JStr ''rec_1'', payment_record.updated_at = JNull\<rparr>"

definition sample_world ::
  "gateway_result \<Rightarrow> db_error + payment_record \<Rightarrow> db_error option \<Rightarrow>
   db_error + payment_record \<Rightarrow> world" where
  "sample_world g i u p =
     \<lparr>createPayment = (\<lambda>c. g), payments_insert = (\<lambda>row. i),
      registrations_update = (\<lambda>f t v. u), payments_update = (\<lambda>f k. p),
      Date_toISOString = ''2024-05-01T12:00:00.000Z'',
      Number_toString = (\<lambda>n. ''1.5''),
      toLowerCase = ascii_lower\<rparr>"

definition sample_body :: "json \<Rightarrow> json \<Rightarrow> json" where
  "sample_body a t =
     JObj [(''sourceId'', JStr ''cnon:card-nonce-ok''), (''amount'', a),
           (''description'', JStr ''Entry fee''), (''idempotencyKey'', JStr ''key-1''),
           (''userId'', JStr ''u1''), (''tournamentId'', t)]"

definition sample_request :: "json \<Rightarrow> json \<Rightarrow> payment_request" where
  "sample_request a t =
     \<lparr>payment_request.sourceId = JStr ''cnon:card-nonce-ok'',
      payment_request.amount = a,
      payment_request.description = JStr ''Entry fee'',
      payment_request.idempotencyKey = JStr ''key-1'',
      payment_request.userId = JStr ''u1'',
      payment_request.tournamentId = t\<rparr>"

definition sample_charge :: "json \<Rightarrow> string option \<Rightarrow> charge" where
  "sample_charge a ref =
     \<lparr>charge.sourceId = JStr ''cnon:card-nonce-ok'',
      charge.amount = a,
      charge.currency = ''GBP'',
      charge.idempotencyKey = JStr ''key-1'',
      charge.note' = JStr ''Entry fee'',
      charge.referenceId = ref\<rparr>"

definition sample_status_body :: "json \<Rightarrow> json \<Rightarrow> json" where
  "sample_status_body k st = JObj [(''paymentId'', k), (''status'', st)]"

section \<open>Properties of the handlers\<close>

subsection \<open>Auxiliary facts\<close>

text \<open>
  \<^verbatim>\<open>Number.isInteger\<close> accepts exactly the integers, so a request passes the validation
  exactly when \<^verbatim>\<open>sourceId\<close> and \<^verbatim>\<open>idempotencyKey\<close> are truthy and \<^verbatim>\<open>amount\<close> is a
  positive integer.
\<close>

lemma Number_isInteger_iff: "Number_isInteger v \<longleftrightarrow> (\<exists>n. v = JNum (Fin (of_int n)))"
  by (cases v rule: Number_isInteger.cases) auto

lemma passes_validation_iff:
  "passes_validation r \<longleftrightarrow>
     truthy (payment_request.sourceId r) \<and> truthy (payment_request.idempotencyKey r) \<and>
     (\<exists>n. 0 < n \<and> payment_request.amount r = JNum (Fin (of_int n)))"
  unfolding passes_validation_def Number_isInteger_iff by auto

text \<open>
  Rounding: 10 and 5 are doubles, and the quotient of the largest safe integer by 100 is
  not; the double nearest to it is 90071992547409.90625. A small integer is written with
  its decimal digits.
\<close>

lemma binary64_10: "binary64 10 = Fin 10"
  by (simp add: binary64_def floor_log2_def round_ties_even_def compute_bitlen)

lemma binary64_5: "binary64 5 = Fin 5"
  by (simp add: binary64_def floor_log2_def round_ties_even_def compute_bitlen)

lemma floor_log2_inexact: "floor_log2 (9007199254740991 / 100) = 46"
proof -
  have "\<lfloor>(9007199254740991::rat) / 100\<rfloor> = 90071992547409"
    by (rule floor_unique) simp_all
  then show ?thesis
    by (simp add: floor_log2_def compute_bitlen)
qed

lemma round_ties_even_inexact:
  "round_ties_even (9007199254740991 / 100 / 2 powi (- 6)) = 5764607523034234"
proof -
  have "\<lfloor>(9007199254740991::rat) / 100 / 2 powi (- 6)\<rfloor> = 5764607523034234"
    by (rule floor_unique) simp_all
  then show ?thesis
    by (simp add: round_ties_even_def)
qed

lemma binary64_inexact:
  "binary64 (9007199254740991 / 100) = Fin (2882303761517117 / 32)"
  using round_ties_even_inexact
  by (simp add: binary64_def floor_log2_inexact Let_def)

lemma Number_text_integer:
  assumes "\<bar>n\<bar> < 2 ^ 53"
  shows "Number_text num (Fin (of_int n)) = decimal n"
proof -
  from assms have "\<bar>rat_of_int n\<bar> < 2 ^ 53"
    by (metis of_int_abs of_int_less_numeral_power_cancel_iff)
  then show ?thesis by simp
qed

text \<open>The branches of the handlers, and the sample inputs.\<close>

lemma gateway_calls_append: "gateway_calls (xs @ ys) = gateway_calls xs @ gateway_calls ys"
  by (induction xs rule: gateway_calls.induct) simp_all

lemma gateway_calls_registration_sync: "gateway_calls (registration_sync w r p) = []"
  by (simp add: registration_sync_def split: option.split)

lemma destructure_payment_None: "destructure_payment b = None \<longleftrightarrow> b = JNull \<or> b = JUndefined"
  by (simp add: destructure_payment_def)

lemma destructure_status_None: "destructure_status b = None \<longleftrightarrow> b = JNull \<or> b = JUndefined"
  by (simp add: destructure_status_def)

lemma POST_null_body: "POST w (Some JNull) = POST_catch OtherError []"
  by (simp add: POST_def destructure_payment_def)


lemma POST_destructured: "destructure_payment b = Some r \<Longrightarrow> POST w (Some b) = POST_body w r"
  by (simp add: POST_def)

lemma POST_body_reference_throws:
  assumes "passes_validation r" and "charge_args w r = None"
  shows "POST_body w r = POST_catch OtherError []"
  using assms by (simp add: POST_body_def passes_validation_def)

lemma POST_body_rejected:
  assumes "passes_validation r" and "charge_args w r = Some a"
    and "createPayment w a = Rejected e"
  shows "POST_body w r = POST_catch e [CreatePayment a]"
  using assms by (simp add: POST_body_def passes_validation_def)

lemma POST_body_insert_failed:
  assumes "passes_validation r" and "charge_args w r = Some a"
    and "createPayment w a = Resolved p"
    and "payments_insert w (payment_row_of w r p) = Inl e"
  shows "POST_body w r =
    (NextResponse_json
       \<lparr>success = True, error = None, response_body.paymentId = Some (payment.id p),
        response_body.amount = None, response_body.status = None, recordId = None,
        warning = Some ''Payment processed but record creation failed'', payment = None\<rparr>
       200,
     [CreatePayment a, PaymentsInsert (payment_row_of w r p),
      ConsoleError ''Database error:''])"
  using assms by (simp add: POST_body_def passes_validation_def)

lemma POST_body_stored:
  assumes "passes_validation r" and "charge_args w r = Some a"
    and "createPayment w a = Resolved p"
    and "payments_insert w (payment_row_of w r p) = Inr rec"
  shows "POST_body w r =
    (NextResponse_json
       \<lparr>success = True, error = None, response_body.paymentId = Some (payment.id p),
        response_body.amount = Some (payment.amount p),
        response_body.status = Some (payment.status p),
        recordId = Some (payment_record.id rec), warning = None, payment = None\<rparr>
       200,
     [CreatePayment a, PaymentsInsert (payment_row_of w r p)] @
     registration_sync w r p)"
  using assms by (simp add: POST_body_def passes_validation_def)

lemma POST_body_invalid:
  assumes "\<not> passes_validation r"
  shows "http_status (fst (POST_body w r)) = 400 \<and>
         \<not> success (body (fst (POST_body w r))) \<and> snd (POST_body w r) = []"
  using assms
  by (auto simp: POST_body_def passes_validation_def NextResponse_json_def failure_def)

lemma POST_catch_effects:
  "snd (POST_catch e es) = es @ [ConsoleError ''Payment processing error:'']"
  by (cases e) simp_all

lemma POST_gateway_calls:
  "gateway_calls (snd (POST w request)) =
     (case request of
        None \<Rightarrow> []
      | Some b \<Rightarrow>
          (case destructure_payment b of
             None \<Rightarrow> []
           | Some r \<Rightarrow>
               if passes_validation r
               then (case charge_args w r of None \<Rightarrow> [] | Some a \<Rightarrow> [a])
               else []))"
  by (auto simp: POST_def POST_body_def passes_validation_def gateway_calls_append
      gateway_calls_registration_sync POST_catch_effects
      split: option.split gateway_result.split sum.split)


lemma destructure_sample_body:
  "destructure_payment (sample_body a t) = Some (sample_request a t)"
  by (simp add: destructure_payment_def sample_body_def sample_request_def)

lemma passes_validation_sample: "passes_validation (sample_request (JNum (Fin 1000)) t)"
  by (simp add: passes_validation_def sample_request_def)

lemma sample_world_simps:
  "createPayment (sample_world g i u p) c = g"
  "payments_insert (sample_world g i u p) row = i"
  "registrations_update (sample_world g i u p) f t v = u"
  "payments_update (sample_world g i u p) pf k = p"
  "Date_toISOString (sample_world g i u p) = ''2024-05-01T12:00:00.000Z''"
  "toLowerCase (sample_world g i u p) = ascii_lower"
  by (simp_all add: sample_world_def)

lemma charge_args_sample:
  "charge_args w (sample_request a (JStr ''t1'')) = Some (sample_charge a (Some ''tournament_t1''))"
  by (simp add: charge_args_def reference_def charge_of_def sample_request_def
      sample_charge_def)

lemma sample_row_amount:
  "payment_row.amount (payment_row_of w (sample_request (JNum (Fin 1000)) t) p) = Fin 10"
  by (simp add: payment_row_of_def sample_request_def binary64_10)

lemma ascii_lower_COMPLETED: "ascii_lower ''COMPLETED'' = ''completed''"
  by (simp add: ascii_lower_def)


lemma PUT_destructured: "destructure_status b = Some r \<Longrightarrow> PUT w (Some b) = PUT_body w r"
  by (simp add: PUT_def)

lemma destructure_sample_status_body:
  "destructure_status (sample_status_body k st) =
     Some \<lparr>status_request.paymentId = k, status_request.status = st\<rparr>"
  by (simp add: destructure_status_def sample_status_body_def)

lemma PUT_body_missing:
  assumes "\<not> truthy (status_request.paymentId r) \<or> \<not> truthy (status_request.status r)"
  shows "PUT_body w r = (NextResponse_json (failure ''Missing payment ID or status'') 400, [])"
  using assms by (auto simp: PUT_body_def)


lemma PUT_body_not_a_string:
  assumes "truthy (status_request.paymentId r)" and "truthy (status_request.status r)"
    and "call_toLowerCase (toLowerCase w) (status_request.status r) = None"
  shows "PUT_body w r = PUT_catch []"
  using assms by (simp add: PUT_body_def)


lemma POST_valid_effects:
  assumes "destructure_payment b = Some r" and "passes_validation r"
    and "reference w r = Some ref"
  shows "gateway_calls (snd (POST w (Some b))) = [charge_of r ref] \<and>
         (\<exists>es. snd (POST w (Some b)) = CreatePayment (charge_of r ref) # es)"
proof -
  have a: "charge_args w r = Some (charge_of r ref)"
    by (simp add: charge_args_def assms(3))
  have calls: "gateway_calls (snd (POST w (Some b))) = [charge_of r ref]"
    using assms(1,2) a by (simp add: POST_gateway_calls)
  have first: "\<exists>es. snd (POST w (Some b)) = CreatePayment (charge_of r ref) # es"
    using assms(2) a
    by (simp add: POST_destructured[OF assms(1)] POST_body_def passes_validation_def
        POST_catch_effects split: gateway_result.split sum.split)
  from calls first show ?thesis ..
qed

subsection \<open>Creating a payment\<close>

text \<open>
  C1. A valid create-payment request whose charge succeeds and whose insert the store
  accepts is answered with status 200, \<open>success = true\<close>, the gateway's payment id, amount
  and status, and the identifier of the row the store returned as \<open>recordId\<close>. The row
  given to the store is the second effect, after the charge. Its amount is the amount of
  the request, a positive integer \<open>n\<close>, divided by 100 as the division of numbers does
  it: the double nearest to \<open>n / 100\<close>. It is the gateway's amount divided by 100 when
  the gateway reports the amount it was asked to charge.
\<close>

theorem create_payment_success:
  assumes "destructure_payment b = Some r"
    and "passes_validation r"
    and "charge_args w r = Some a"
    and "createPayment w a = Resolved p"
    and "payments_insert w (payment_row_of w r p) = Inr rec"
  shows "fst (POST w (Some b)) =
           \<lparr>http_status = 200,
            body = \<lparr>success = True, error = None,
                    response_body.paymentId = Some (payment.id p),
                    response_body.amount = Some (payment.amount p),
                    response_body.status = Some (payment.status p),
                    recordId = Some (payment_record.id rec),
                    warning = None, payment = None\<rparr>\<rparr> \<and>
         take 2 (snd (POST w (Some b))) =
           [CreatePayment a, PaymentsInsert (payment_row_of w r p)] \<and>
         (\<exists>n. 0 < n \<and> payment_request.amount r = JNum (Fin (of_int n)) \<and>
              payment_row.amount (payment_row_of w r p) = binary64 (of_int n / 100)) \<and>
         (payment.amount p = the_number (payment_request.amount r) \<longrightarrow>
            payment_row.amount (payment_row_of w r p) = div_100 (payment.amount p))"
proof -
  from assms(2) obtain n where n: "0 < n" "payment_request.amount r = JNum (Fin (of_int n))"
    unfolding passes_validation_iff by blast
  have stored: "payment_row.amount (payment_row_of w r p) = binary64 (of_int n / 100)"
    by (simp add: payment_row_of_def n)
  show ?thesis
    using n stored
    by (auto simp: POST_destructured[OF assms(1)] POST_body_stored[OF assms(2-5)]
        NextResponse_json_def payment_row_of_def)
qed

theorem create_payment_success_witness:
  "destructure_payment (sample_body (JNum (Fin 1000)) (JStr ''t1'')) =
     Some (sample_request (JNum (Fin 1000)) (JStr ''t1'')) \<and>
   passes_validation (sample_request (JNum (Fin 1000)) (JStr ''t1'')) \<and>
   fst (POST (sample_world (Resolved (sample_payment ''COMPLETED'' (Fin 1000)))
                (Inr sample_record) None (Inr sample_record))
          (Some (sample_body (JNum (Fin 1000)) (JStr ''t1'')))) =
     \<lparr>http_status = 200,
      body = \<lparr>success = True, error = None, response_body.paymentId = Some ''pay_1'',
              response_body.amount = Some (Fin 1000),
              response_body.status = Some ''COMPLETED'',
              recordId = Some (JStr ''rec_1''), warning = None, payment = None\<rparr>\<rparr> \<and>
   payment_row.amount
     (payment_row_of
        (sample_world (Resolved (sample_payment ''COMPLETED'' (Fin 1000)))
           (Inr sample_record) None (Inr sample_record))
        (sample_request (JNum (Fin 1000)) (JStr ''t1''))
        (sample_payment ''COMPLETED'' (Fin 1000))) = Fin 10"
proof -
  let ?w = "sample_world (Resolved (sample_payment ''COMPLETED'' (Fin 1000)))
              (Inr sample_record) None (Inr sample_record)"
  let ?r = "sample_request (JNum (Fin 1000)) (JStr ''t1'')"
  let ?p = "sample_payment ''COMPLETED'' (Fin 1000)"
  have h1: "destructure_payment (sample_body (JNum (Fin 1000)) (JStr ''t1'')) = Some ?r"
    by (rule destructure_sample_body)
  have h2: "passes_validation ?r"
    by (rule passes_validation_sample)
  have h3: "charge_args ?w ?r = Some (sample_charge (JNum (Fin 1000)) (Some ''tournament_t1''))"
    by (rule charge_args_sample)
  have h4: "createPayment ?w (sample_charge (JNum (Fin 1000)) (Some ''tournament_t1''))
              = Resolved ?p"
    by (simp add: sample_world_simps)
  have h5: "payments_insert ?w (payment_row_of ?w ?r ?p) = Inr sample_record"
    by (simp add: sample_world_simps)
  from create_payment_success [OF h1 h2 h3 h4 h5] h1 h2 show ?thesis
    by (simp add: sample_row_amount sample_payment_def sample_record_def)
qed

text \<open>
  The stored amount is not computed from the gateway's result: when the gateway answers a
  request for 1000 with a payment of amount 500, the row holds 1000 / 100 = 10, and not
  500 / 100 = 5.
\<close>

theorem stored_amount_not_gateway_amount:
  "destructure_payment (sample_body (JNum (Fin 1000)) (JStr ''t1'')) =
     Some (sample_request (JNum (Fin 1000)) (JStr ''t1'')) \<and>
   passes_validation (sample_request (JNum (Fin 1000)) (JStr ''t1'')) \<and>
   createPayment
     (sample_world (Resolved (sample_payment ''COMPLETED'' (Fin 500)))
        (Inr sample_record) None (Inr sample_record))
     (sample_charge (JNum (Fin 1000)) (Some ''tournament_t1'')) =
     Resolved (sample_payment ''COMPLETED'' (Fin 500)) \<and>
   payments_insert
     (sample_world (Resolved (sample_payment ''COMPLETED'' (Fin 500)))
        (Inr sample_record) None (Inr sample_record))
     (payment_row_of
        (sample_world (Resolved (sample_payment ''COMPLETED'' (Fin 500)))
           (Inr sample_record) None (Inr sample_record))
        (sample_request (JNum (Fin 1000)) (JStr ''t1''))
        (sample_payment ''COMPLETED'' (Fin 500))) = Inr sample_record \<and>
   take 2
     (snd (POST (sample_world (Resolved (sample_payment ''COMPLETED'' (Fin 500)))
                   (Inr sample_record) None (Inr sample_record))
             (Some (sample_body (JNum (Fin 1000)) (JStr ''t1''))))) =
     [CreatePayment (sample_charge (JNum (Fin 1000)) (Some ''tournament_t1'')),
      PaymentsInsert
        (payment_row_of
           (sample_world (Resolved (sample_payment ''COMPLETED'' (Fin 500)))
              (Inr sample_record) None (Inr sample_record))
           (sample_request (JNum (Fin 1000)) (JStr ''t1''))
           (sample_payment ''COMPLETED'' (Fin 500)))] \<and>
   http_status
     (fst (POST (sample_world (Resolved (sample_payment ''COMPLETED'' (Fin 500)))
                   (Inr sample_record) None (Inr sample_record))
             (Some (sample_body (JNum (Fin 1000)) (JStr ''t1''))))) = 200 \<and>
   payment_row.amount
     (payment_row_of
        (sample_world (Resolved (sample_payment ''COMPLETED'' (Fin 500)))
           (Inr sample_record) None (Inr sample_record))
        (sample_request (JNum (Fin 1000)) (JStr ''t1''))
        (sample_payment ''COMPLETED'' (Fin 500))) = Fin 10 \<and>
   div_100 (payment.amount (sample_payment ''COMPLETED'' (Fin 500))) = Fin 5"
proof -
  let ?w = "sample_world (Resolved (sample_payment ''COMPLETED'' (Fin 500)))
              (Inr sample_record) None (Inr sample_record)"
  let ?r = "sample_request (JNum (Fin 1000)) (JStr ''t1'')"
  let ?p = "sample_payment ''COMPLETED'' (Fin 500)"
  let ?a = "sample_charge (JNum (Fin 1000)) (Some ''tournament_t1'')"
  have h1: "destructure_payment (sample_body (JNum (Fin 1000)) (JStr ''t1'')) = Some ?r"
    by (rule destructure_sample_body)
  have h2: "passes_validation ?r"
    by (rule passes_validation_sample)
  have h3: "charge_args ?w ?r = Some ?a"
    by (rule charge_args_sample)
  have h4: "createPayment ?w ?a = Resolved ?p"
    by (simp add: sample_world_simps)
  have h5: "payments_insert ?w (payment_row_of ?w ?r ?p) = Inr sample_record"
    by (simp add: sample_world_simps)
  have gw: "div_100 (payment.amount ?p) = Fin 5"
    by (simp add: sample_payment_def binary64_5)
  have run: "POST ?w (Some (sample_body (JNum (Fin 1000)) (JStr ''t1''))) = POST_body ?w ?r"
    by (simp add: POST_destructured [OF h1])
  show ?thesis
    unfolding run POST_body_stored [OF h2 h3 h4 h5]
    using h1 h2 h4 h5 gw by (simp add: sample_row_amount NextResponse_json_def)
qed

text \<open>
  C2. A valid create-payment request whose charge succeeds and whose insert the store
  refuses is answered with status 200, not 500, with \<open>success = true\<close>, the gateway's
  payment id and a warning: the failed insert does not turn the charge into a failure.
\<close>

theorem insert_failure_is_a_warning:
  assumes "destructure_payment b = Some r"
    and "passes_validation r"
    and "charge_args w r = Some a"
    and "createPayment w a = Resolved p"
    and "payments_insert w (payment_row_of w r p) = Inl e"
  shows "fst (POST w (Some b)) =
           \<lparr>http_status = 200,
            body = \<lparr>success = True, error = None,
                    response_body.paymentId = Some (payment.id p),
                    response_body.amount = None, response_body.status = None,
                    recordId = None,
                    warning = Some ''Payment processed but record creation failed'',
                    payment = None\<rparr>\<rparr> \<and>
         http_status (fst (POST w (Some b))) \<noteq> 500 \<and>
         success (body (fst (POST w (Some b)))) \<and>
         warning (body (fst (POST w (Some b)))) \<noteq> None"
  by (simp add: POST_destructured[OF assms(1)] POST_body_insert_failed[OF assms(2-5)]
      NextResponse_json_def)

theorem insert_failure_is_a_warning_witness:
  "destructure_payment (sample_body (JNum (Fin 1000)) (JStr ''t1'')) =
     Some (sample_request (JNum (Fin 1000)) (JStr ''t1'')) \<and>
   passes_validation (sample_request (JNum (Fin 1000)) (JStr ''t1'')) \<and>
   fst (POST (sample_world (Resolved (sample_payment ''COMPLETED'' (Fin 1000)))
                (Inl (PostgrestError ''connection refused'')) None (Inr sample_record))
          (Some (sample_body (JNum (Fin 1000)) (JStr ''t1'')))) =
     \<lparr>http_status = 200,
      body = \<lparr>success = True, error = None, response_body.paymentId = Some ''pay_1'',
              response_body.amount = None, response_body.status = None, recordId = None,
              warning = Some ''Payment processed but record creation failed'',
              payment = None\<rparr>\<rparr>"
proof -
  let ?w = "sample_world (Resolved (sample_payment ''COMPLETED'' (Fin 1000)))
              (Inl (PostgrestError ''connection refused'')) None (Inr sample_record)"
  let ?r = "sample_request (JNum (Fin 1000)) (JStr ''t1'')"
  let ?p = "sample_payment ''COMPLETED'' (Fin 1000)"
  let ?a = "sample_charge (JNum (Fin 1000)) (Some ''tournament_t1'')"
  have h1: "destructure_payment (sample_body (JNum (Fin 1000)) (JStr ''t1'')) = Some ?r"
    by (rule destructure_sample_body)
  have h2: "passes_validation ?r"
    by (rule passes_validation_sample)
  have h3: "charge_args ?w ?r = Some ?a"
    by (rule charge_args_sample)
  have h4: "createPayment ?w ?a = Resolved ?p"
    by (simp add: sample_world_simps)
  have h5: "payments_insert ?w (payment_row_of ?w ?r ?p)
              = Inl (PostgrestError ''connection refused'')"
    by (simp add: sample_world_simps)
  from insert_failure_is_a_warning [OF h1 h2 h3 h4 h5] h1 h2 show ?thesis
    by (simp add: sample_payment_def)
qed

text \<open>
  C3. When the gateway, called for a create-payment request, throws a
  \<^verbatim>\<open>SquarePaymentError\<close> with message \<open>M\<close>, the answer is status 400 with
  \<open>success = false\<close> and \<open>error = M\<close>; the charge and the log entry of the \<^verbatim>\<open>catch\<close>
  block are the only effects, so neither the insert nor the registration update is made.
\<close>

theorem gateway_error_is_surfaced:
  assumes "c \<in> set (gateway_calls (snd (POST w request)))"
    and "createPayment w c = Rejected (SquarePaymentError M)"
  shows "http_status (fst (POST w request)) = 400 \<and>
         \<not> success (body (fst (POST w request))) \<and>
         error (body (fst (POST w request))) = Some M \<and>
         snd (POST w request) = [CreatePayment c, ConsoleError ''Payment processing error:''] \<and>
         store_calls (snd (POST w request)) = []"
proof -
  from assms(1) have called: "gateway_calls (snd (POST w request)) \<noteq> []"
    by auto
  obtain b where req: "request = Some b"
    using called by (cases request) (simp_all add: POST_gateway_calls)
  obtain r where r: "destructure_payment b = Some r"
    using called by (cases "destructure_payment b") (simp_all add: POST_gateway_calls req)
  have v: "passes_validation r"
    using called by (simp add: POST_gateway_calls req r split: if_splits)
  have c: "charge_args w r = Some c"
    using assms(1) by (cases "charge_args w r") (simp_all add: POST_gateway_calls req r v)
  have "POST w request = POST_catch (SquarePaymentError M) [CreatePayment c]"
    using assms(2) unfolding req
    by (simp add: POST_destructured[OF r] POST_body_rejected[OF v c])
  then show ?thesis
    by (simp add: NextResponse_json_def failure_def store_calls_def)
qed

theorem gateway_error_is_surfaced_witness:
  "sample_charge (JNum (Fin 1000)) (Some ''tournament_t1'')
     \<in> set (gateway_calls
              (snd (POST (sample_world (Rejected (SquarePaymentError ''Card declined''))
                            (Inr sample_record) None (Inr sample_record))
                      (Some (sample_body (JNum (Fin 1000)) (JStr ''t1'')))))) \<and>
   http_status
     (fst (POST (sample_world (Rejected (SquarePaymentError ''Card declined''))
                   (Inr sample_record) None (Inr sample_record))
             (Some (sample_body (JNum (Fin 1000)) (JStr ''t1''))))) = 400 \<and>
   error (body
     (fst (POST (sample_world (Rejected (SquarePaymentError ''Card declined''))
                   (Inr sample_record) None (Inr sample_record))
             (Some (sample_body (JNum (Fin 1000)) (JStr ''t1'')))))) = Some ''Card declined'' \<and>
   store_calls
     (snd (POST (sample_world (Rejected (SquarePaymentError ''Card declined''))
                   (Inr sample_record) None (Inr sample_record))
             (Some (sample_body (JNum (Fin 1000)) (JStr ''t1''))))) = []"
proof -
  let ?w = "sample_world (Rejected (SquarePaymentError ''Card declined''))
              (Inr sample_record) None (Inr sample_record)"
  let ?a = "sample_charge (JNum (Fin 1000)) (Some ''tournament_t1'')"
  have h1: "?a \<in> set (gateway_calls
              (snd (POST ?w (Some (sample_body (JNum (Fin 1000)) (JStr ''t1''))))))"
    by (simp add: POST_gateway_calls destructure_sample_body passes_validation_sample
        charge_args_sample)
  have h2: "createPayment ?w ?a = Rejected (SquarePaymentError ''Card declined'')"
    by (simp add: sample_world_simps)
  from gateway_error_is_surfaced [OF h1 h2] h1 show ?thesis
    by (simp add: store_calls_def)
qed

text \<open>
  C4. A create-payment request whose body is a value other than \<^verbatim>\<open>null\<close> and in which
  \<^verbatim>\<open>sourceId\<close>, \<^verbatim>\<open>amount\<close> or \<^verbatim>\<open>idempotencyKey\<close> is falsy, or whose amount is not a
  positive integer (zero, negative, not integral, not a number), is answered with status
  400 and \<open>success = false\<close>, and the handler has no effect at all. A request whose body is
  \<^verbatim>\<open>null\<close> is answered with status 500 and \<open>success = false\<close>, the log entry of the
  \<^verbatim>\<open>catch\<close> block being the only effect. In both cases neither the gateway nor the
  store is called.
\<close>

theorem invalid_request_is_rejected:
  "(destructure_payment b = Some r \<and>
    (\<not> truthy (payment_request.sourceId r) \<or> \<not> truthy (payment_request.amount r) \<or>
     \<not> truthy (payment_request.idempotencyKey r) \<or>
     (\<forall>n::int. 0 < n \<longrightarrow> payment_request.amount r \<noteq> JNum (Fin (of_int n)))) \<longrightarrow>
      http_status (fst (POST w (Some b))) = 400 \<and>
      \<not> success (body (fst (POST w (Some b)))) \<and>
      snd (POST w (Some b)) = [] \<and>
      gateway_calls (snd (POST w (Some b))) = [] \<and>
      store_calls (snd (POST w (Some b))) = []) \<and>
   http_status (fst (POST w (Some JNull))) = 500 \<and>
   \<not> success (body (fst (POST w (Some JNull)))) \<and>
   error (body (fst (POST w (Some JNull)))) = Some ''Payment processing failed'' \<and>
   snd (POST w (Some JNull)) = [ConsoleError ''Payment processing error:''] \<and>
   gateway_calls (snd (POST w (Some JNull))) = [] \<and>
   store_calls (snd (POST w (Some JNull))) = []"
proof (intro conjI impI)
  assume h: "destructure_payment b = Some r \<and>
    (\<not> truthy (payment_request.sourceId r) \<or> \<not> truthy (payment_request.amount r) \<or>
     \<not> truthy (payment_request.idempotencyKey r) \<or>
     (\<forall>n::int. 0 < n \<longrightarrow> payment_request.amount r \<noteq> JNum (Fin (of_int n))))"
  have "\<not> passes_validation r"
  proof
    assume v: "passes_validation r"
    then obtain n where "0 < n" "payment_request.amount r = JNum (Fin (of_int n))"
      unfolding passes_validation_iff by blast
    moreover from v have "truthy (payment_request.sourceId r)"
      "truthy (payment_request.amount r)" "truthy (payment_request.idempotencyKey r)"
      by (simp_all add: passes_validation_def)
    ultimately show False using h by blast
  qed
  from POST_body_invalid [OF this, of w] h
  show "http_status (fst (POST w (Some b))) = 400"
    and "\<not> success (body (fst (POST w (Some b))))"
    and "snd (POST w (Some b)) = []"
    and "gateway_calls (snd (POST w (Some b))) = []"
    and "store_calls (snd (POST w (Some b))) = []"
    by (simp_all add: POST_destructured store_calls_def)
next
  show "http_status (fst (POST w (Some JNull))) = 500"
    and "\<not> success (body (fst (POST w (Some JNull))))"
    and "error (body (fst (POST w (Some JNull)))) = Some ''Payment processing failed''"
    and "snd (POST w (Some JNull)) = [ConsoleError ''Payment processing error:'']"
    and "gateway_calls (snd (POST w (Some JNull))) = []"
    and "store_calls (snd (POST w (Some JNull))) = []"
    by (simp_all add: POST_null_body NextResponse_json_def failure_def store_calls_def)
qed

theorem invalid_request_is_rejected_witness:
  "destructure_payment (sample_body (JNum (Fin (3 / 2))) (JStr ''t1'')) =
     Some (sample_request (JNum (Fin (3 / 2))) (JStr ''t1'')) \<and>
   \<not> Number_isInteger
        (payment_request.amount (sample_request (JNum (Fin (3 / 2))) (JStr ''t1''))) \<and>
   http_status
     (fst (POST (sample_world (Resolved (sample_payment ''COMPLETED'' (Fin 1000)))
                   (Inr sample_record) None (Inr sample_record))
             (Some (sample_body (JNum (Fin (3 / 2))) (JStr ''t1''))))) = 400 \<and>
   snd (POST (sample_world (Resolved (sample_payment ''COMPLETED'' (Fin 1000)))
                (Inr sample_record) None (Inr sample_record))
          (Some (sample_body (JNum (Fin (3 / 2))) (JStr ''t1'')))) = [] \<and>
   http_status
     (fst (POST (sample_world (Resolved (sample_payment ''COMPLETED'' (Fin 1000)))
                   (Inr sample_record) None (Inr sample_record))
             (Some (sample_body (JNum (Fin (- 5))) (JStr ''t1''))))) = 400 \<and>
   snd (POST (sample_world (Resolved (sample_payment ''COMPLETED'' (Fin 1000)))
                (Inr sample_record) None (Inr sample_record))
          (Some (sample_body JNull (JStr ''t1'')))) = [] \<and>
   http_status
     (fst (POST (sample_world (Resolved (sample_payment ''COMPLETED'' (Fin 1000)))
                   (Inr sample_record) None (Inr sample_record))
             (Some JNull))) = 500"
proof -
  let ?w = "sample_world (Resolved (sample_payment ''COMPLETED'' (Fin 1000)))
              (Inr sample_record) None (Inr sample_record)"
  have "\<lfloor>(3::rat) / 2\<rfloor> = 1"
    by (rule floor_unique) simp_all
  then have fraction: "\<not> Number_isInteger (JNum (Fin (3 / 2)))"
    by simp
  then have h1: "\<forall>n::int. 0 < n \<longrightarrow>
      payment_request.amount (sample_request (JNum (Fin (3 / 2))) (JStr ''t1''))
        \<noteq> JNum (Fin (of_int n))"
    unfolding Number_isInteger_iff by (simp add: sample_request_def)
  have h2: "\<forall>n::int. 0 < n \<longrightarrow>
      payment_request.amount (sample_request (JNum (Fin (- 5))) (JStr ''t1''))
        \<noteq> JNum (Fin (of_int n))"
    by (simp add: sample_request_def)
  have h3: "\<not> truthy (payment_request.amount (sample_request JNull (JStr ''t1'')))"
    by (simp add: sample_request_def)
  note non_integral = invalid_request_is_rejected
    [where b = "sample_body (JNum (Fin (3 / 2))) (JStr ''t1'')"
       and r = "sample_request (JNum (Fin (3 / 2))) (JStr ''t1'')" and w = ?w]
  note negative = invalid_request_is_rejected
    [where b = "sample_body (JNum (Fin (- 5))) (JStr ''t1'')"
       and r = "sample_request (JNum (Fin (- 5))) (JStr ''t1'')" and w = ?w]
  note missing = invalid_request_is_rejected
    [where b = "sample_body JNull (JStr ''t1'')"
       and r = "sample_request JNull (JStr ''t1'')" and w = ?w]
  have a: "http_status
     (fst (POST ?w (Some (sample_body (JNum (Fin (3 / 2))) (JStr ''t1''))))) = 400 \<and>
     snd (POST ?w (Some (sample_body (JNum (Fin (3 / 2))) (JStr ''t1'')))) = []"
    using non_integral h1 by (simp add: destructure_sample_body)
  have b: "http_status
     (fst (POST ?w (Some (sample_body (JNum (Fin (- 5))) (JStr ''t1''))))) = 400"
    using negative h2 by (simp add: destructure_sample_body)
  have c: "snd (POST ?w (Some (sample_body JNull (JStr ''t1'')))) = []"
    using missing h3 by (simp add: destructure_sample_body)
  have d: "http_status (fst (POST ?w (Some JNull))) = 500"
    using missing by simp
  from a b c d fraction show ?thesis
    by (simp add: destructure_sample_body sample_request_def)
qed

text \<open>
  The body \<^verbatim>\<open>null\<close> has none of the three fields, and the answer is not the 400 of the
  validation: the destructuring at line 8 throws, and the \<^verbatim>\<open>catch\<close> block answers 500.
\<close>

theorem null_body_is_not_a_validation_error:
  "destructure_payment JNull = None \<and>
   fst (POST (sample_world (Resolved (sample_payment ''COMPLETED'' (Fin 1000)))
                (Inr sample_record) None (Inr sample_record))
          (Some JNull)) =
     \<lparr>http_status = 500,
      body = \<lparr>success = False, error = Some ''Payment processing failed'',
              response_body.paymentId = None, response_body.amount = None,
              response_body.status = None, recordId = None, warning = None,
              payment = None\<rparr>\<rparr> \<and>
   http_status
     (fst (POST (sample_world (Resolved (sample_payment ''COMPLETED'' (Fin 1000)))
                   (Inr sample_record) None (Inr sample_record))
             (Some JNull))) \<noteq> 400"
  by (simp add: POST_null_body destructure_payment_def NextResponse_json_def failure_def)



text \<open>
  C7. A create-payment request that passes the validation, and whose \<^verbatim>\<open>tournamentId\<close>
  is falsy or has a text, calls the gateway exactly once, as the first effect, with the
  request's \<^verbatim>\<open>sourceId\<close>, its \<^verbatim>\<open>amount\<close>, the currency \<open>GBP\<close>, its \<^verbatim>\<open>idempotencyKey\<close>
  unchanged and its \<^verbatim>\<open>description\<close> as note; the reference is \<open>tournament_\<close> followed
  by the text of a truthy \<^verbatim>\<open>tournamentId\<close> (the string itself, the decimal digits of a
  small integer), and there is no reference for a falsy one. When the \<^verbatim>\<open>tournamentId\<close>
  has no text, the template literal throws: the answer is status 500, and the gateway is
  not called.
\<close>

theorem charge_arguments:
  assumes "destructure_payment b = Some r"
    and "passes_validation r"
  shows "(\<not> truthy (tournamentId r) \<longrightarrow>
            gateway_calls (snd (POST w (Some b))) = [charge_of r None] \<and>
            (\<exists>es. snd (POST w (Some b)) = CreatePayment (charge_of r None) # es)) \<and>
         (truthy (tournamentId r) \<and>
          toString (Number_toString w) (tournamentId r) = Some s \<longrightarrow>
            gateway_calls (snd (POST w (Some b))) =
              [charge_of r (Some (''tournament_'' @ s))] \<and>
            (\<exists>es. snd (POST w (Some b)) =
                    CreatePayment (charge_of r (Some (''tournament_'' @ s))) # es)) \<and>
         (tournamentId r = JStr t \<and> t \<noteq> [] \<longrightarrow>
            gateway_calls (snd (POST w (Some b))) =
              [charge_of r (Some (''tournament_'' @ t))]) \<and>
         (tournamentId r = JNum (Fin (of_int n)) \<and> n \<noteq> 0 \<and> \<bar>n\<bar> < 2 ^ 53 \<longrightarrow>
            gateway_calls (snd (POST w (Some b))) =
              [charge_of r (Some (''tournament_'' @ decimal n))]) \<and>
         (truthy (tournamentId r) \<and>
          toString (Number_toString w) (tournamentId r) = None \<longrightarrow>
            http_status (fst (POST w (Some b))) = 500 \<and>
            error (body (fst (POST w (Some b)))) = Some ''Payment processing failed'' \<and>
            snd (POST w (Some b)) = [ConsoleError ''Payment processing error:''] \<and>
            gateway_calls (snd (POST w (Some b))) = []) \<and>
         charge_of r ref =
           \<lparr>charge.sourceId = payment_request.sourceId r,
            charge.amount = payment_request.amount r,
            charge.currency = ''GBP'',
            charge.idempotencyKey = payment_request.idempotencyKey r,
            charge.note' = payment_request.description r,
            charge.referenceId = ref\<rparr>"
proof (intro conjI impI, goal_cases)
  case 1
  then have "reference w r = Some None" by (simp add: reference_def)
  from POST_valid_effects [OF assms this] show ?case by simp
next
  case 2
  then have "reference w r = Some None" by (simp add: reference_def)
  from POST_valid_effects [OF assms this] show ?case by simp
next
  case 3
  then have "reference w r = Some (Some (''tournament_'' @ s))" by (simp add: reference_def)
  from POST_valid_effects [OF assms this] show ?case by simp
next
  case 4
  then have "reference w r = Some (Some (''tournament_'' @ s))" by (simp add: reference_def)
  from POST_valid_effects [OF assms this] show ?case by simp
next
  case 5
  then have "reference w r = Some (Some (''tournament_'' @ t))" by (simp add: reference_def)
  from POST_valid_effects [OF assms this] show ?case by simp
next
  case 6
  then have "reference w r = Some (Some (''tournament_'' @ decimal n))"
    by (simp add: reference_def Number_text_integer del: Number_text.simps)
  from POST_valid_effects [OF assms this] show ?case by simp
next
  case 7
  then have "charge_args w r = None" by (simp add: charge_args_def reference_def)
  from POST_body_reference_throws [OF assms(2) this] show ?case
    by (simp add: POST_destructured[OF assms(1)] NextResponse_json_def)
next
  case 8
  then have "charge_args w r = None" by (simp add: charge_args_def reference_def)
  from POST_body_reference_throws [OF assms(2) this] show ?case
    by (simp add: POST_destructured[OF assms(1)] NextResponse_json_def failure_def)
next
  case 9
  then have "charge_args w r = None" by (simp add: charge_args_def reference_def)
  from POST_body_reference_throws [OF assms(2) this] show ?case
    by (simp add: POST_destructured[OF assms(1)])
next
  case 10
  then have "charge_args w r = None" by (simp add: charge_args_def reference_def)
  from POST_body_reference_throws [OF assms(2) this] show ?case
    by (simp add: POST_destructured[OF assms(1)])
next
  case 11
  show ?case by (simp add: charge_of_def)
qed

theorem charge_arguments_witness:
  "gateway_calls
     (snd (POST (sample_world (Resolved (sample_payment ''COMPLETED'' (Fin 1000)))
                   (Inr sample_record) None (Inr sample_record))
             (Some (sample_body (JNum (Fin 1000)) (JStr ''t1''))))) =
     [\<lparr>charge.sourceId = JStr ''cnon:card-nonce-ok'',
       charge.amount = JNum (Fin 1000),
       charge.currency = ''GBP'',
       charge.idempotencyKey = JStr ''key-1'',
       charge.note' = JStr ''Entry fee'',
       charge.referenceId = Some ''tournament_t1''\<rparr>] \<and>
   gateway_calls
     (snd (POST (sample_world (Resolved (sample_payment ''COMPLETED'' (Fin 1000)))
                   (Inr sample_record) None (Inr sample_record))
             (Some (sample_body (JNum (Fin 1000)) (JNum (Fin 42)))))) =
     [\<lparr>charge.sourceId = JStr ''cnon:card-nonce-ok'',
       charge.amount = JNum (Fin 1000),
       charge.currency = ''GBP'',
       charge.idempotencyKey = JStr ''key-1'',
       charge.note' = JStr ''Entry fee'',
       charge.referenceId = Some ''tournament_42''\<rparr>] \<and>
   gateway_calls
     (snd (POST (sample_world (Resolved (sample_payment ''COMPLETED'' (Fin 1000)))
                   (Inr sample_record) None (Inr sample_record))
             (Some (sample_body (JNum (Fin 1000)) JNull)))) =
     [\<lparr>charge.sourceId = JStr ''cnon:card-nonce-ok'',
       charge.amount = JNum (Fin 1000),
       charge.currency = ''GBP'',
       charge.idempotencyKey = JStr ''key-1'',
       charge.note' = JStr ''Entry fee'',
       charge.referenceId = None\<rparr>] \<and>
   snd (POST (sample_world (Resolved (sample_payment ''COMPLETED'' (Fin 1000)))
                (Inr sample_record) None (Inr sample_record))
          (Some (sample_body (JNum (Fin 1000)) (JObj [(''toString'', JNum (Fin 1))])))) =
     [ConsoleError ''Payment processing error:'']"
proof -
  let ?w = "sample_world (Resolved (sample_payment ''COMPLETED'' (Fin 1000)))
              (Inr sample_record) None (Inr sample_record)"
  have fields: "payment_request.sourceId (sample_request a t) = JStr ''cnon:card-nonce-ok''"
    "payment_request.amount (sample_request a t) = a"
    "payment_request.idempotencyKey (sample_request a t) = JStr ''key-1''"
    "payment_request.description (sample_request a t) = JStr ''Entry fee''"
    "tournamentId (sample_request a t) = t" for a t
    by (simp_all add: sample_request_def)
  have dec: "decimal 42 = ''42''"
    by (simp add: decimal_def digits.simps)
  note string = charge_arguments
    [OF destructure_sample_body passes_validation_sample,
     where t1 = "JStr ''t1''" and t = "''t1''" and w = ?w]
  note number = charge_arguments
    [OF destructure_sample_body passes_validation_sample,
     where t1 = "JNum (Fin 42)" and n = 42 and w = ?w]
  note absent = charge_arguments
    [OF destructure_sample_body passes_validation_sample,
     where t1 = JNull and w = ?w]
  note throws = charge_arguments
    [OF destructure_sample_body passes_validation_sample,
     where t1 = "JObj [(''toString'', JNum (Fin 1))]" and w = ?w]
  have a: "gateway_calls
     (snd (POST ?w (Some (sample_body (JNum (Fin 1000)) (JStr ''t1''))))) =
     [charge_of (sample_request (JNum (Fin 1000)) (JStr ''t1'')) (Some ''tournament_t1'')]"
    using string by (simp add: fields)
  have b: "gateway_calls
     (snd (POST ?w (Some (sample_body (JNum (Fin 1000)) (JNum (Fin 42)))))) =
     [charge_of (sample_request (JNum (Fin 1000)) (JNum (Fin 42))) (Some ''tournament_42'')]"
    using number by (simp add: fields dec)
  have c: "gateway_calls
     (snd (POST ?w (Some (sample_body (JNum (Fin 1000)) JNull)))) =
     [charge_of (sample_request (JNum (Fin 1000)) JNull) None]"
    using absent by (simp add: fields)
  have d: "snd (POST ?w
          (Some (sample_body (JNum (Fin 1000)) (JObj [(''toString'', JNum (Fin 1))])))) =
     [ConsoleError ''Payment processing error:'']"
    using throws by (simp add: fields)
  from a b c d show ?thesis
    by (simp add: charge_of_def fields)
qed

text \<open>
  A request can pass the validation without any call of the gateway: a \<^verbatim>\<open>tournamentId\<close>
  that is an object with a key \<^verbatim>\<open>toString\<close> has no text, line 33 throws before
  \<^verbatim>\<open>createPayment\<close> is called, and the answer is status 500.
\<close>

theorem reference_can_throw:
  "destructure_payment
     (sample_body (JNum (Fin 1000)) (JObj [(''toString'', JNum (Fin 1))])) =
     Some (sample_request (JNum (Fin 1000)) (JObj [(''toString'', JNum (Fin 1))])) \<and>
   passes_validation
     (sample_request (JNum (Fin 1000)) (JObj [(''toString'', JNum (Fin 1))])) \<and>
   gateway_calls
     (snd (POST (sample_world (Resolved (sample_payment ''COMPLETED'' (Fin 1000)))
                   (Inr sample_record) None (Inr sample_record))
             (Some (sample_body (JNum (Fin 1000))
                      (JObj [(''toString'', JNum (Fin 1))]))))) = [] \<and>
   fst (POST (sample_world (Resolved (sample_payment ''COMPLETED'' (Fin 1000)))
                (Inr sample_record) None (Inr sample_record))
          (Some (sample_body (JNum (Fin 1000)) (JObj [(''toString'', JNum (Fin 1))])))) =
     \<lparr>http_status = 500,
      body = \<lparr>success = False, error = Some ''Payment processing failed'',
              response_body.paymentId = None, response_body.amount = None,
              response_body.status = None, recordId = None, warning = None,
              payment = None\<rparr>\<rparr>"
proof -
  let ?w = "sample_world (Resolved (sample_payment ''COMPLETED'' (Fin 1000)))
              (Inr sample_record) None (Inr sample_record)"
  let ?r = "sample_request (JNum (Fin 1000)) (JObj [(''toString'', JNum (Fin 1))])"
  have h1: "destructure_payment
     (sample_body (JNum (Fin 1000)) (JObj [(''toString'', JNum (Fin 1))])) = Some ?r"
    by (rule destructure_sample_body)
  have h2: "passes_validation ?r"
    by (rule passes_validation_sample)
  have h3: "charge_args ?w ?r = None"
    by (simp add: charge_args_def reference_def sample_request_def)
  show ?thesis
    using h1 h2
    by (simp add: POST_destructured [OF h1] POST_body_reference_throws [OF h2 h3]
        NextResponse_json_def failure_def)
qed

text \<open>
  C8. When the insert fails after a successful charge, the effects are the charge, the
  insert and the log entry, whatever \<^verbatim>\<open>tournamentId\<close> and \<^verbatim>\<open>userId\<close> are: no
  registration update is made, and the answer carries the warning.
\<close>

theorem insert_failure_skips_registration:
  assumes "destructure_payment b = Some r"
    and "passes_validation r"
    and "charge_args w r = Some a"
    and "createPayment w a = Resolved p"
    and "payments_insert w (payment_row_of w r p) = Inl e"
  shows "snd (POST w (Some b)) =
           [CreatePayment a, PaymentsInsert (payment_row_of w r p),
            ConsoleError ''Database error:''] \<and>
         (\<forall>f t u. RegistrationsUpdate f t u \<notin> set (snd (POST w (Some b)))) \<and>
         warning (body (fst (POST w (Some b)))) =
           Some ''Payment processed but record creation failed''"
  by (simp add: POST_destructured[OF assms(1)] POST_body_insert_failed[OF assms(2-5)]
      NextResponse_json_def)

theorem insert_failure_skips_registration_witness:
  "truthy (tournamentId (sample_request (JNum (Fin 1000)) (JStr ''t1''))) \<and>
   truthy (userId (sample_request (JNum (Fin 1000)) (JStr ''t1''))) \<and>
   snd (POST (sample_world (Resolved (sample_payment ''COMPLETED'' (Fin 1000)))
                (Inl (PostgrestError ''connection refused'')) None (Inr sample_record))
          (Some (sample_body (JNum (Fin 1000)) (JStr ''t1'')))) =
     [CreatePayment (sample_charge (JNum (Fin 1000)) (Some ''tournament_t1'')),
      PaymentsInsert
        (payment_row_of
           (sample_world (Resolved (sample_payment ''COMPLETED'' (Fin 1000)))
              (Inl (PostgrestError ''connection refused'')) None (Inr sample_record))
           (sample_request (JNum (Fin 1000)) (JStr ''t1''))
           (sample_payment ''COMPLETED'' (Fin 1000))),
      ConsoleError ''Database error:'']"
proof -
  let ?w = "sample_world (Resolved (sample_payment ''COMPLETED'' (Fin 1000)))
              (Inl (PostgrestError ''connection refused'')) None (Inr sample_record)"
  let ?r = "sample_request (JNum (Fin 1000)) (JStr ''t1'')"
  let ?p = "sample_payment ''COMPLETED'' (Fin 1000)"
  let ?a = "sample_charge (JNum (Fin 1000)) (Some ''tournament_t1'')"
  have h1: "destructure_payment (sample_body (JNum (Fin 1000)) (JStr ''t1'')) = Some ?r"
    by (rule destructure_sample_body)
  have h2: "passes_validation ?r"
    by (rule passes_validation_sample)
  have h3: "charge_args ?w ?r = Some ?a"
    by (rule charge_args_sample)
  have h4: "createPayment ?w ?a = Resolved ?p"
    by (simp add: sample_world_simps)
  have h5: "payments_insert ?w (payment_row_of ?w ?r ?p)
              = Inl (PostgrestError ''connection refused'')"
    by (simp add: sample_world_simps)
  have present: "truthy (tournamentId ?r) \<and> truthy (userId ?r)"
    by (simp add: sample_request_def)
  from insert_failure_skips_registration [OF h1 h2 h3 h4 h5] present show ?thesis
    by simp
qed

subsection \<open>Updating a status\<close>




subsection \<open>Thrown errors\<close>

text \<open>
  C9. A request whose body cannot be parsed is answered with status 500,
  \<open>success = false\<close> and the generic message of the handler. So is an update-status
  request whose \<^verbatim>\<open>paymentId\<close> is truthy and whose \<^verbatim>\<open>status\<close> is truthy and has no
  \<^verbatim>\<open>toLowerCase\<close>: the call throws, and no store operation is made. An update-status
  request in which \<^verbatim>\<open>paymentId\<close> or \<^verbatim>\<open>status\<close> is falsy gets the 400 response of the
  validation, whatever the type of \<^verbatim>\<open>status\<close> is.
\<close>

theorem unreadable_request_is_server_error:
  "fst (POST w None) =
     \<lparr>http_status = 500,
      body = \<lparr>success = False, error = Some ''Payment processing failed'',
              response_body.paymentId = None, response_body.amount = None,
              response_body.status = None, recordId = None, warning = None,
              payment = None\<rparr>\<rparr> \<and>
   snd (POST w None) = [ConsoleError ''Payment processing error:''] \<and>
   fst (PUT w None) =
     \<lparr>http_status = 500,
      body = \<lparr>success = False, error = Some ''Payment update failed'',
              response_body.paymentId = None, response_body.amount = None,
              response_body.status = None, recordId = None, warning = None,
              payment = None\<rparr>\<rparr> \<and>
   snd (PUT w None) = [ConsoleError ''Payment update error:''] \<and>
   (destructure_status b = Some r \<and> truthy (status_request.paymentId r) \<and>
    truthy (status_request.status r) \<and>
    call_toLowerCase (toLowerCase w) (status_request.status r) = None \<longrightarrow>
      fst (PUT w (Some b)) =
        \<lparr>http_status = 500,
         body = \<lparr>success = False, error = Some ''Payment update failed'',
                 response_body.paymentId = None, response_body.amount = None,
                 response_body.status = None, recordId = None, warning = None,
                 payment = None\<rparr>\<rparr> \<and>
      snd (PUT w (Some b)) = [ConsoleError ''Payment update error:'']) \<and>
   (destructure_status b = Some r \<and>
    (\<not> truthy (status_request.paymentId r) \<or> \<not> truthy (status_request.status r)) \<longrightarrow>
      http_status (fst (PUT w (Some b))) = 400)"
proof (intro conjI impI)
  show "fst (POST w None) =
     \<lparr>http_status = 500,
      body = \<lparr>success = False, error = Some ''Payment processing failed'',
              response_body.paymentId = None, response_body.amount = None,
              response_body.status = None, recordId = None, warning = None,
              payment = None\<rparr>\<rparr>"
    by (simp add: POST_def NextResponse_json_def failure_def)
  show "snd (POST w None) = [ConsoleError ''Payment processing error:'']"
    by (simp add: POST_def)
  show "fst (PUT w None) =
     \<lparr>http_status = 500,
      body = \<lparr>success = False, error = Some ''Payment update failed'',
              response_body.paymentId = None, response_body.amount = None,
              response_body.status = None, recordId = None, warning = None,
              payment = None\<rparr>\<rparr>"
    by (simp add: PUT_def PUT_catch_def NextResponse_json_def failure_def)
  show "snd (PUT w None) = [ConsoleError ''Payment update error:'']"
    by (simp add: PUT_def PUT_catch_def)
next
  assume h: "destructure_status b = Some r \<and> truthy (status_request.paymentId r) \<and>
    truthy (status_request.status r) \<and>
    call_toLowerCase (toLowerCase w) (status_request.status r) = None"
  then have run: "PUT w (Some b) = PUT_catch []"
    by (simp add: PUT_destructured PUT_body_not_a_string)
  show "fst (PUT w (Some b)) =
        \<lparr>http_status = 500,
         body = \<lparr>success = False, error = Some ''Payment update failed'',
                 response_body.paymentId = None, response_body.amount = None,
                 response_body.status = None, recordId = None, warning = None,
                 payment = None\<rparr>\<rparr>"
    by (simp add: run PUT_catch_def NextResponse_json_def failure_def)
  show "snd (PUT w (Some b)) = [ConsoleError ''Payment update error:'']"
    by (simp add: run PUT_catch_def)
next
  assume h: "destructure_status b = Some r \<and>
    (\<not> truthy (status_request.paymentId r) \<or> \<not> truthy (status_request.status r))"
  then have "PUT w (Some b) =
      (NextResponse_json (failure ''Missing payment ID or status'') 400, [])"
    by (simp add: PUT_destructured PUT_body_missing)
  then show "http_status (fst (PUT w (Some b))) = 400"
    by (simp add: NextResponse_json_def)
qed

theorem unreadable_request_is_server_error_witness:
  "call_toLowerCase
     (toLowerCase (sample_world (Resolved (sample_payment ''COMPLETED'' (Fin 1000)))
                     (Inr sample_record) None (Inr sample_record)))
     (JNum (Fin 5)) = None \<and>
   fst (PUT (sample_world (Resolved (sample_payment ''COMPLETED'' (Fin 1000)))
             (Inr sample_record) None (Inr sample_record))
          (Some (sample_status_body (JStr ''pay_1'') (JNum (Fin 5))))) =
     \<lparr>http_status = 500,
      body = \<lparr>success = False, error = Some ''Payment update failed'',
              response_body.paymentId = None, response_body.amount = None,
              response_body.status = None, recordId = None, warning = None,
              payment = None\<rparr>\<rparr> \<and>
   snd (PUT (sample_world (Resolved (sample_payment ''COMPLETED'' (Fin 1000)))
             (Inr sample_record) None (Inr sample_record))
          (Some (sample_status_body (JStr ''pay_1'') (JNum (Fin 5))))) =
     [ConsoleError ''Payment update error:''] \<and>
   http_status
     (fst (PUT (sample_world (Resolved (sample_payment ''COMPLETED'' (Fin 1000)))
             (Inr sample_record) None (Inr sample_record))
             (Some (sample_status_body JNull (JNum (Fin 5)))))) = 400"
proof -
  note thrown = unreadable_request_is_server_error
    [of "sample_world (Resolved (sample_payment ''COMPLETED'' (Fin 1000)))
           (Inr sample_record) None (Inr sample_record)"
        "sample_status_body (JStr ''pay_1'') (JNum (Fin 5))"
        "\<lparr>status_request.paymentId = JStr ''pay_1'', status_request.status = JNum (Fin 5)\<rparr>"]
  note missing = unreadable_request_is_server_error
    [of "sample_world (Resolved (sample_payment ''COMPLETED'' (Fin 1000)))
           (Inr sample_record) None (Inr sample_record)"
        "sample_status_body JNull (JNum (Fin 5))"
        "\<lparr>status_request.paymentId = JNull, status_request.status = JNum (Fin 5)\<rparr>"]
  have a: "fst (PUT (sample_world (Resolved (sample_payment ''COMPLETED'' (Fin 1000)))
             (Inr sample_record) None (Inr sample_record))
          (Some (sample_status_body (JStr ''pay_1'') (JNum (Fin 5))))) =
     \<lparr>http_status = 500,
      body = \<lparr>success = False, error = Some ''Payment update failed'',
              response_body.paymentId = None, response_body.amount = None,
              response_body.status = None, recordId = None, warning = None,
              payment = None\<rparr>\<rparr> \<and>
   snd (PUT (sample_world (Resolved (sample_payment ''COMPLETED'' (Fin 1000)))
             (Inr sample_record) None (Inr sample_record))
          (Some (sample_status_body (JStr ''pay_1'') (JNum (Fin 5))))) =
     [ConsoleError ''Payment update error:'']"
    using thrown by (simp add: destructure_sample_status_body)
  have b: "http_status
     (fst (PUT (sample_world (Resolved (sample_payment ''COMPLETED'' (Fin 1000)))
             (Inr sample_record) None (Inr sample_record))
             (Some (sample_status_body JNull (JNum (Fin 5)))))) = 400"
    using missing by (simp add: destructure_sample_status_body)
  from a b show ?thesis by simp
qed

text \<open>
  A status without \<^verbatim>\<open>toLowerCase\<close> does not always lead to status 500: the status
  \<^verbatim>\<open>false\<close>, and the status 5 sent without a \<^verbatim>\<open>paymentId\<close>, are stopped by the
  validation and answered with status 400.
\<close>

theorem non_string_status_can_get_400:
  "call_toLowerCase
     (toLowerCase (sample_world (Resolved (sample_payment ''COMPLETED'' (Fin 1000)))
                     (Inr sample_record) None (Inr sample_record)))
     (JBool False) = None \<and>
   destructure_status (sample_status_body (JStr ''pay_1'') (JBool False)) =
     Some \<lparr>status_request.paymentId = JStr ''pay_1'', status_request.status = JBool False\<rparr> \<and>
   fst (PUT (sample_world (Resolved (sample_payment ''COMPLETED'' (Fin 1000)))
             (Inr sample_record) None (Inr sample_record))
          (Some (sample_status_body (JStr ''pay_1'') (JBool False)))) =
     \<lparr>http_status = 400,
      body = \<lparr>success = False, error = Some ''Missing payment ID or status'',
              response_body.paymentId = None, response_body.amount = None,
              response_body.status = None, recordId = None, warning = None,
              payment = None\<rparr>\<rparr> \<and>
   call_toLowerCase
     (toLowerCase (sample_world (Resolved (sample_payment ''COMPLETED'' (Fin 1000)))
                     (Inr sample_record) None (Inr sample_record)))
     (JNum (Fin 5)) = None \<and>
   fst (PUT (sample_world (Resolved (sample_payment ''COMPLETED'' (Fin 1000)))
             (Inr sample_record) None (Inr sample_record))
          (Some (JObj [(''status'', JNum (Fin 5))]))) =
     \<lparr>http_status = 400,
      body = \<lparr>success = False, error = Some ''Missing payment ID or status'',
              response_body.paymentId = None, response_body.amount = None,
              response_body.status = None, recordId = None, warning = None,
              payment = None\<rparr>\<rparr>"
  by (simp add: PUT_def PUT_body_def destructure_status_def sample_status_body_def
      NextResponse_json_def failure_def)

subsection \<open>The status in the response and in the store\<close>

text \<open>
  C10. On full success the response carries the gateway's status string as it is, and the
  row given to the store carries the lower-cased string; the two differ whenever
  lower-casing changes the gateway's status.
\<close>

theorem response_and_stored_status:
  assumes "destructure_payment b = Some r"
    and "passes_validation r"
    and "charge_args w r = Some a"
    and "createPayment w a = Resolved p"
    and "payments_insert w (payment_row_of w r p) = Inr rec"
  shows "response_body.status (body (fst (POST w (Some b)))) = Some (payment.status p) \<and>
         PaymentsInsert (payment_row_of w r p) \<in> set (snd (POST w (Some b))) \<and>
         payment_row.status (payment_row_of w r p) = toLowerCase w (payment.status p) \<and>
         (toLowerCase w (payment.status p) \<noteq> payment.status p \<longrightarrow>
            response_body.status (body (fst (POST w (Some b))))
              \<noteq> Some (payment_row.status (payment_row_of w r p)))"
  by (auto simp: POST_destructured[OF assms(1)] POST_body_stored[OF assms(2-5)]
      NextResponse_json_def payment_row_of_def)

theorem response_and_stored_status_witness:
  "toLowerCase
     (sample_world (Resolved (sample_payment ''COMPLETED'' (Fin 1000)))
        (Inr sample_record) None (Inr sample_record))
     (payment.status (sample_payment ''COMPLETED'' (Fin 1000))) \<noteq>
     payment.status (sample_payment ''COMPLETED'' (Fin 1000)) \<and>
   response_body.status
     (body (fst (POST (sample_world (Resolved (sample_payment ''COMPLETED'' (Fin 1000)))
                         (Inr sample_record) None (Inr sample_record))
                   (Some (sample_body (JNum (Fin 1000)) (JStr ''t1'')))))) = Some ''COMPLETED'' \<and>
   payment_row.status
     (payment_row_of
        (sample_world (Resolved (sample_payment ''COMPLETED'' (Fin 1000)))
           (Inr sample_record) None (Inr sample_record))
        (sample_request (JNum (Fin 1000)) (JStr ''t1''))
        (sample_payment ''COMPLETED'' (Fin 1000))) = ''completed''"
proof -
  let ?w = "sample_world (Resolved (sample_payment ''COMPLETED'' (Fin 1000)))
              (Inr sample_record) None (Inr sample_record)"
  let ?r = "sample_request (JNum (Fin 1000)) (JStr ''t1'')"
  let ?p = "sample_payment ''COMPLETED'' (Fin 1000)"
  let ?a = "sample_charge (JNum (Fin 1000)) (Some ''tournament_t1'')"
  have h1: "destructure_payment (sample_body (JNum (Fin 1000)) (JStr ''t1'')) = Some ?r"
    by (rule destructure_sample_body)
  have h2: "passes_validation ?r"
    by (rule passes_validation_sample)
  have h3: "charge_args ?w ?r = Some ?a"
    by (rule charge_args_sample)
  have h4: "createPayment ?w ?a = Resolved ?p"
    by (simp add: sample_world_simps)
  have h5: "payments_insert ?w (payment_row_of ?w ?r ?p) = Inr sample_record"
    by (simp add: sample_world_simps)
  have st: "payment.status ?p = ''COMPLETED''"
    by (simp add: sample_payment_def)
  from response_and_stored_status [OF h1 h2 h3 h4 h5] show ?thesis
    by (simp add: st sample_world_simps ascii_lower_COMPLETED)
qed

end
